theory Spec2Isabelle
  imports Complex_Main "HOL-Library.AList"
begin

section \<open>JSON values as the program sees them\<close>

text \<open>
  The program keeps every configuration as a plain JavaScript object obtained from
  \<^verbatim>\<open>JSON.parse\<close>. A value is one of the six JSON kinds; an object is the list of its own
  properties in enumeration order, which is what \<^verbatim>\<open>Object.keys\<close>, the spread
  \<^verbatim>\<open>{...x}\<close> and \<^verbatim>\<open>JSON.stringify\<close> walk. An assignment \<^verbatim>\<open>x[k] = v\<close> replaces the value
  in place or appends a new property (\<open>AList.update\<close>); \<^verbatim>\<open>delete x[k]\<close> is \<open>AList.delete\<close>.
  A property read \<^verbatim>\<open>x[k]\<close> finds an own property or, failing that, a member that the
  object inherits from \<^verbatim>\<open>Object.prototype\<close>; \<^verbatim>\<open>k in x\<close> holds in the same two cases.
  Numbers are the rational values of the doubles that \<^verbatim>\<open>JSON.parse\<close> yields (a literal
  too large for a double is left out); only their being zero or not matters below.
  Two things are not part of this model: the setter of the inherited accessor
  \<^verbatim>\<open>__proto__\<close> (an assignment to that name is treated like an assignment to any other
  name), and the enumeration of array-index-like names before the other names (a new
  property goes last).
\<close>

datatype json =
    JNull
  | JBool bool
  | JNum rat
  | JStr string
  | JArr "json list"
  | JObj "(string \<times> json) list"

type_synonym obj = "(string \<times> json) list"

text \<open>JavaScript truthiness, as \<^verbatim>\<open>!x\<close> and \<^verbatim>\<open>x || y\<close> test it.\<close>

fun truthy :: "json \<Rightarrow> bool" where
  "truthy JNull = False"
| "truthy (JBool b) = b"
| "truthy (JNum n) = (n \<noteq> 0)"
| "truthy (JStr s) = (s \<noteq> [])"
| "truthy (JArr xs) = True"
| "truthy (JObj kvs) = True"

text \<open>The truthiness of a property read: \<^verbatim>\<open>undefined\<close> is falsy.\<close>

fun truthy_prop :: "json option \<Rightarrow> bool" where
  "truthy_prop None = False"
| "truthy_prop (Some v) = truthy v"

text \<open>
  The members of \<^verbatim>\<open>Object.prototype\<close>, which every object built by an object literal, by
  a spread or by \<^verbatim>\<open>JSON.parse\<close> inherits. Each of them reads as a truthy value: eleven
  are functions, and \<^verbatim>\<open>__proto__\<close> reads as the prototype object itself.
\<close>

definition Object_prototype_names :: "string list" where
  "Object_prototype_names =
     [''constructor'', ''__defineGetter__'', ''__defineSetter__'', ''hasOwnProperty'',
      ''__lookupGetter__'', ''__lookupSetter__'', ''isPrototypeOf'',
      ''propertyIsEnumerable'', ''toString'', ''valueOf'', ''__proto__'',
      ''toLocaleString'']"

definition inherited :: "string \<Rightarrow> bool" where
  "inherited k \<longleftrightarrow> k \<in> set Object_prototype_names"

text \<open>
  The truthiness of the read \<^verbatim>\<open>x[k]\<close> on such an object: the own property when there is
  one, otherwise the inherited member when there is one, otherwise \<^verbatim>\<open>undefined\<close>.
\<close>

definition read_truthy :: "obj \<Rightarrow> string \<Rightarrow> bool" where
  "read_truthy x k = (case map_of x k of Some v \<Rightarrow> truthy v | None \<Rightarrow> inherited k)"

text \<open>\<^verbatim>\<open>k in x\<close>\<close>

definition has_property :: "string \<Rightarrow> obj \<Rightarrow> bool" where
  "has_property k x \<longleftrightarrow> k \<in> set (map fst x) \<or> inherited k"

text \<open>Decimal rendering of an array index, the name of an element's property.\<close>

definition digit_char :: "nat \<Rightarrow> char" where
  "digit_char d = ''0123456789'' ! d"

function string_of_nat :: "nat \<Rightarrow> string" where
  "string_of_nat n =
     (if n < 10 then [digit_char n]
      else string_of_nat (n div 10) @ [digit_char (n mod 10)])"
  by pat_completeness auto
termination
  by (relation "measure (\<lambda>n. n)") auto

declare string_of_nat.simps [simp del]

text \<open>
  The own enumerable properties of a parsed value, as \<^verbatim>\<open>Object.keys(v)\<close> with \<^verbatim>\<open>v[key]\<close>
  and as the spread \<^verbatim>\<open>{...v}\<close> see them: the members of an object, the elements of an
  array and the characters of a string under their indices, nothing for a number, a
  boolean or \<^verbatim>\<open>null\<close>.
\<close>

fun own_entries :: "json \<Rightarrow> obj" where
  "own_entries (JObj kvs) = kvs"
| "own_entries (JArr xs) = zip (map string_of_nat [0..<length xs]) xs"
| "own_entries (JStr s) = zip (map string_of_nat [0..<length s]) (map (\<lambda>c. JStr [c]) s)"
| "own_entries JNull = []"
| "own_entries (JBool b) = []"
| "own_entries (JNum n) = []"

section \<open>The two host files and the effects of the program\<close>

text \<open>
  A host file is known to the program only through \<^verbatim>\<open>fs.existsSync\<close>,
  \<^verbatim>\<open>JSON.parse(fs.readFileSync(path, 'utf8'))\<close> and
  \<^verbatim>\<open>fs.writeFileSync(path, JSON.stringify(x, null, 2))\<close>. Its content is therefore kept as
  what reading it gives: \<open>Absent\<close> when the file does not exist, \<open>Garbage\<close> when reading or
  parsing it throws, \<open>Parsed v\<close> when it parses to \<open>v\<close>. Writing \<open>x\<close> leaves a file that
  parses back to \<open>x\<close>.
\<close>

datatype file_content = Absent | Garbage | Parsed json

record host_slot =
  dir_exists :: bool
  content :: file_content
  writable :: bool

datatype host = Claude | AmazonQ

datatype effect =
    ConsoleLog string
  | ConsoleError string
  | MkDir host
  | WriteFile host

text \<open>
  \<open>writable\<close> says that \<^verbatim>\<open>fs.mkdirSync\<close> and \<^verbatim>\<open>fs.writeFileSync\<close> succeed on the host's
  path; \<open>which_uvx\<close> is the standard output of the shell command \<^verbatim>\<open>which uvx\<close>, or \<open>None\<close>
  when the command fails; \<open>trace\<close> records console output and filesystem writes in order.
\<close>

record world =
  claude :: host_slot
  amazonq :: host_slot
  which_uvx :: "string option"
  trace :: "effect list"

datatype exn = SyntaxError | TypeError | IOError

fun slot :: "host \<Rightarrow> world \<Rightarrow> host_slot" where
  "slot Claude w = claude w"
| "slot AmazonQ w = amazonq w"

fun set_slot :: "host \<Rightarrow> host_slot \<Rightarrow> world \<Rightarrow> world" where
  "set_slot Claude s w = w\<lparr>claude := s\<rparr>"
| "set_slot AmazonQ s w = w\<lparr>amazonq := s\<rparr>"

definition emit :: "effect \<Rightarrow> world \<Rightarrow> world" where
  "emit e w = w\<lparr>trace := trace w @ [e]\<rparr>"

section \<open>Config Reader\<close>

definition empty_config :: obj where
  "empty_config = [(''mcpServers'', JObj [])]"

text \<open>\<^verbatim>\<open>JSON.parse(fs.readFileSync(path, 'utf8'))\<close>\<close>

fun parse_file :: "file_content \<Rightarrow> exn + json" where
  "parse_file Absent = Inl IOError"
| "parse_file Garbage = Inl SyntaxError"
| "parse_file (Parsed v) = Inr v"

text \<open>\<^verbatim>\<open>x || {}\<close> for a property read \<open>x\<close>\<close>

fun or_empty :: "json option \<Rightarrow> json" where
  "or_empty None = JObj []"
| "or_empty (Some v) = (if truthy v then v else JObj [])"

text \<open>
  \<^verbatim>\<open>{ ...config, mcpServers: config.mcpServers || {} }\<close>: reading a property of
  \<^verbatim>\<open>null\<close> throws a TypeError.
\<close>

definition with_mcpServers :: "json \<Rightarrow> exn + obj" where
  "with_mcpServers config =
     (if config = JNull then Inl TypeError
      else Inr (AList.update ''mcpServers''
                  (or_empty (map_of (own_entries config) ''mcpServers''))
                  (own_entries config)))"

text \<open>
  The body shared by the four readers: the existence test, the guarded parse, and the
  catch-all handler that logs and answers the empty configuration.
\<close>

definition read_host :: "host \<Rightarrow> string \<Rightarrow> world \<Rightarrow> obj \<times> world" where
  "read_host h msg w =
     (if content (slot h w) = Absent then (empty_config, w)
      else (case parse_file (content (slot h w)) of
              Inl e \<Rightarrow> (empty_config, emit (ConsoleError msg) w)
            | Inr config \<Rightarrow>
                (case with_mcpServers config of
                   Inl e \<Rightarrow> (empty_config, emit (ConsoleError msg) w)
                 | Inr c \<Rightarrow> (c, w))))"

text \<open>The free functions of the installer module.\<close>

definition readClaudeConfig :: "world \<Rightarrow> obj \<times> world" where
  "readClaudeConfig = read_host Claude ''Error reading Claude config:''"

definition readAmazonQConfig :: "world \<Rightarrow> obj \<times> world" where
  "readAmazonQConfig = read_host AmazonQ ''Error reading Amazon Q config:''"

text \<open>The static methods of \<^verbatim>\<open>ConfigManager\<close>.\<close>

definition CM_readClaudeConfig :: "world \<Rightarrow> obj \<times> world" where
  "CM_readClaudeConfig = read_host Claude ''Error reading Claude config:''"

definition CM_readAmazonQConfig :: "world \<Rightarrow> obj \<times> world" where
  "CM_readAmazonQConfig = read_host AmazonQ ''Error reading Amazon Q config:''"

section \<open>Config Merger\<close>

text \<open>
  An assignment \<^verbatim>\<open>target[key] = source[key]\<close> inside a loop over \<^verbatim>\<open>Object.keys(source)\<close>:
  the value read is always there, since the key is one of the keys of \<open>source\<close>. For the
  one name \<^verbatim>\<open>__proto__\<close> the program runs the inherited setter instead of creating a
  property; that name is outside this model.
\<close>

fun assign :: "string \<Rightarrow> json option \<Rightarrow> obj \<Rightarrow> obj" where
  "assign key (Some v) target = AList.update key v target"
| "assign key None target = target"

text \<open>
  \<^verbatim>\<open>Object.keys(claudeConfig).forEach(key => { if (key !== 'mcpServers')
  mergedConfig[key] = claudeConfig[key]; })\<close>
\<close>

definition copy_primary_key :: "obj \<Rightarrow> obj \<Rightarrow> string \<Rightarrow> obj" where
  "copy_primary_key claudeConfig mergedConfig key =
     (if key \<noteq> ''mcpServers'' then assign key (map_of claudeConfig key) mergedConfig
      else mergedConfig)"

text \<open>
  \<^verbatim>\<open>Object.keys(amazonQConfig).forEach(key => { if (key !== 'mcpServers' &&
  !mergedConfig[key]) mergedConfig[key] = amazonQConfig[key]; })\<close>
\<close>

definition copy_secondary_key :: "obj \<Rightarrow> obj \<Rightarrow> string \<Rightarrow> obj" where
  "copy_secondary_key amazonQConfig mergedConfig key =
     (if key \<noteq> ''mcpServers'' \<and> \<not> read_truthy mergedConfig key
      then assign key (map_of amazonQConfig key) mergedConfig
      else mergedConfig)"

text \<open>\<^verbatim>\<open>if (!config.mcpServers) config.mcpServers = {};\<close>\<close>

definition ensure_mcpServers :: "obj \<Rightarrow> obj" where
  "ensure_mcpServers config =
     (if read_truthy config ''mcpServers'' then config
      else AList.update ''mcpServers'' (JObj []) config)"

text \<open>The own properties of \<^verbatim>\<open>config.mcpServers\<close>.\<close>

definition servers_of :: "obj \<Rightarrow> obj" where
  "servers_of config =
     (case map_of config ''mcpServers'' of None \<Rightarrow> [] | Some m \<Rightarrow> own_entries m)"

text \<open>
  \<^verbatim>\<open>Object.keys(claudeConfig.mcpServers).forEach(serverName => {
  mergedConfig.mcpServers[serverName] = claudeConfig.mcpServers[serverName]; })\<close>, and for
  the second host the same assignment under \<^verbatim>\<open>if (!mergedConfig.mcpServers[serverName])\<close>.
\<close>

definition copy_primary_server :: "obj \<Rightarrow> obj \<Rightarrow> string \<Rightarrow> obj" where
  "copy_primary_server claudeServers servers serverName =
     assign serverName (map_of claudeServers serverName) servers"

definition copy_secondary_server :: "obj \<Rightarrow> obj \<Rightarrow> string \<Rightarrow> obj" where
  "copy_secondary_server amazonQServers servers serverName =
     (if \<not> read_truthy servers serverName
      then assign serverName (map_of amazonQServers serverName) servers
      else servers)"

definition merge_servers :: "obj \<Rightarrow> obj \<Rightarrow> obj \<Rightarrow> obj" where
  "merge_servers servers claudeServers amazonQServers =
     foldl (copy_secondary_server amazonQServers)
       (foldl (copy_primary_server claudeServers) servers (map fst claudeServers))
       (map fst amazonQServers)"

text \<open>
  The body of \<^verbatim>\<open>readMergedConfigs\<close> of the installer module after its two reads. The
  two loops over server names only assign properties of the object
  \<^verbatim>\<open>mergedConfig.mcpServers\<close>; the result is \<open>mergedConfig\<close> with that object in place.
\<close>

definition mergeConfigs :: "obj \<Rightarrow> obj \<Rightarrow> obj" where
  "mergeConfigs claudeConfig amazonQConfig =
     (let mergedConfig = empty_config;
          mergedConfig =
            foldl (copy_primary_key claudeConfig) mergedConfig (map fst claudeConfig);
          mergedConfig =
            foldl (copy_secondary_key amazonQConfig) mergedConfig (map fst amazonQConfig);
          claudeConfig = ensure_mcpServers claudeConfig;
          amazonQConfig = ensure_mcpServers amazonQConfig;
          mergedConfig = ensure_mcpServers mergedConfig
      in AList.update ''mcpServers''
           (JObj (merge_servers (servers_of mergedConfig) (servers_of claudeConfig)
                    (servers_of amazonQConfig)))
           mergedConfig)"

definition readMergedConfigs :: "world \<Rightarrow> obj \<times> world" where
  "readMergedConfigs w =
     (let (claudeConfig, w) = readClaudeConfig w;
          (amazonQConfig, w) = readAmazonQConfig w
      in (mergeConfigs claudeConfig amazonQConfig, w))"

text \<open>
  \<^verbatim>\<open>ConfigManager.readMergedConfigs\<close>: the same text without the line that
  initialises \<^verbatim>\<open>mergedConfig.mcpServers\<close> a second time.
\<close>

definition CM_mergeConfigs :: "obj \<Rightarrow> obj \<Rightarrow> obj" where
  "CM_mergeConfigs claudeConfig amazonQConfig =
     (let mergedConfig = empty_config;
          mergedConfig =
            foldl (copy_primary_key claudeConfig) mergedConfig (map fst claudeConfig);
          mergedConfig =
            foldl (copy_secondary_key amazonQConfig) mergedConfig (map fst amazonQConfig);
          claudeConfig = ensure_mcpServers claudeConfig;
          amazonQConfig = ensure_mcpServers amazonQConfig
      in AList.update ''mcpServers''
           (JObj (merge_servers (servers_of mergedConfig) (servers_of claudeConfig)
                    (servers_of amazonQConfig)))
           mergedConfig)"

definition CM_readMergedConfigs :: "world \<Rightarrow> obj \<times> world" where
  "CM_readMergedConfigs w =
     (let (claudeConfig, w) = CM_readClaudeConfig w;
          (amazonQConfig, w) = CM_readAmazonQConfig w
      in (CM_mergeConfigs claudeConfig amazonQConfig, w))"

section \<open>Config Writer\<close>

text \<open>Sequencing of steps that may throw: the first exception ends the call.\<close>

definition and_then ::
  "(exn + unit) \<times> world \<Rightarrow> (world \<Rightarrow> (exn + unit) \<times> world) \<Rightarrow> (exn + unit) \<times> world" where
  "and_then r k = (case r of (Inl e, w) \<Rightarrow> (Inl e, w) | (Inr u, w) \<Rightarrow> k w)"

text \<open>\<^verbatim>\<open>if (!fs.existsSync(dir)) { fs.mkdirSync(dir, { recursive: true }); }\<close>\<close>

definition ensure_dir :: "host \<Rightarrow> world \<Rightarrow> (exn + unit) \<times> world" where
  "ensure_dir h w =
     (if dir_exists (slot h w) then (Inr (), w)
      else if writable (slot h w)
        then (Inr (), emit (MkDir h) (set_slot h ((slot h w)\<lparr>dir_exists := True\<rparr>) w))
        else (Inl IOError, w))"

text \<open>\<^verbatim>\<open>fs.writeFileSync(path, JSON.stringify(x, null, 2))\<close>\<close>

definition write_file :: "host \<Rightarrow> obj \<Rightarrow> world \<Rightarrow> (exn + unit) \<times> world" where
  "write_file h x w =
     (if writable (slot h w)
      then (Inr (), emit (WriteFile h) (set_slot h ((slot h w)\<lparr>content := Parsed (JObj x)\<rparr>) w))
      else (Inl IOError, w))"

text \<open>
  The serialised form of \<^verbatim>\<open>{ ...existing, mcpServers: config.mcpServers }\<close>:
  \<^verbatim>\<open>JSON.stringify\<close> leaves out a property whose value is \<^verbatim>\<open>undefined\<close>.
\<close>

fun with_servers :: "json option \<Rightarrow> obj \<Rightarrow> obj" where
  "with_servers None existing = AList.delete ''mcpServers'' existing"
| "with_servers (Some m) existing = AList.update ''mcpServers'' m existing"

text \<open>
  The installer module's view of the file it is about to replace: the parsed value with
  \<^verbatim>\<open>mcpServers\<close> deleted; \<^verbatim>\<open>{ mcpServers: {} }\<close> when there is no file, when it does not
  parse, or when it parses to \<^verbatim>\<open>null\<close> (the \<^verbatim>\<open>delete\<close> then throws inside the \<^verbatim>\<open>try\<close>).
\<close>

fun existing_config :: "file_content \<Rightarrow> obj" where
  "existing_config Absent = empty_config"
| "existing_config Garbage = empty_config"
| "existing_config (Parsed v) =
     (if v = JNull then empty_config else AList.delete ''mcpServers'' (own_entries v))"

definition writeConfig :: "obj \<Rightarrow> world \<Rightarrow> (exn + unit) \<times> world" where
  "writeConfig config w =
     and_then (ensure_dir Claude w) (\<lambda>w.
       let existingClaudeConfig = existing_config (content (claude w));
           config = ensure_mcpServers config
       in and_then
            (write_file Claude
               (with_servers (map_of config ''mcpServers'') existingClaudeConfig) w) (\<lambda>w.
          and_then (ensure_dir AmazonQ w) (\<lambda>w.
            let existingAmazonQConfig = existing_config (content (amazonq w))
            in write_file AmazonQ
                 (with_servers (map_of config ''mcpServers'') existingAmazonQConfig) w)))"

text \<open>
  \<^verbatim>\<open>ConfigManager.writeConfig\<close> keeps the parsed value with \<^verbatim>\<open>mcpServers\<close> reset in
  place (\<^verbatim>\<open>{ ...parsed, mcpServers: {} }\<close>), logs each update, and logs and rethrows
  whatever the body throws.
\<close>

fun CM_existing_config :: "file_content \<Rightarrow> obj" where
  "CM_existing_config Absent = empty_config"
| "CM_existing_config Garbage = empty_config"
| "CM_existing_config (Parsed v) = AList.update ''mcpServers'' (JObj []) (own_entries v)"

definition log_line :: "string \<Rightarrow> world \<Rightarrow> (exn + unit) \<times> world" where
  "log_line msg w = (Inr (), emit (ConsoleLog msg) w)"

definition CM_writeConfig_body :: "obj \<Rightarrow> world \<Rightarrow> (exn + unit) \<times> world" where
  "CM_writeConfig_body config w =
     and_then (ensure_dir Claude w) (\<lambda>w.
       let existingClaudeConfig = CM_existing_config (content (claude w))
       in and_then
            (write_file Claude
               (with_servers (map_of config ''mcpServers'') existingClaudeConfig) w) (\<lambda>w.
          and_then (log_line ''Updated Claude MCP configuration'' w) (\<lambda>w.
          and_then (ensure_dir AmazonQ w) (\<lambda>w.
            let existingAmazonQConfig = CM_existing_config (content (amazonq w))
            in and_then
                 (write_file AmazonQ
                    (with_servers (map_of config ''mcpServers'') existingAmazonQConfig) w)
                 (log_line ''Updated Amazon Q MCP configuration'')))))"

definition CM_writeConfig :: "obj \<Rightarrow> world \<Rightarrow> (exn + unit) \<times> world" where
  "CM_writeConfig config w =
     (case CM_writeConfig_body config w of
        (Inl e, w) \<Rightarrow> (Inl e, emit (ConsoleError ''Error writing config:'') w)
      | (Inr u, w) \<Rightarrow> (Inr u, w))"

section \<open>Install, uninstall and the installed test\<close>

datatype runtime = Node | Python

text \<open>
  Modelled from the spec: the \<^verbatim>\<open>Package\<close> record that the package registry supplies
  (its declaration is not among the sources), with the two fields the installers read,
  \<^verbatim>\<open>name\<close> and \<^verbatim>\<open>runtime\<close>.
\<close>

record package =
  pkg_name :: string
  pkg_runtime :: runtime

fun runtime_json :: "runtime \<Rightarrow> json" where
  "runtime_json Node = JStr ''node''"
| "runtime_json Python = JStr ''python''"

text \<open>\<^verbatim>\<open>packageName.replace(/\//g, '-')\<close>\<close>

definition replace_slashes :: "string \<Rightarrow> string" where
  "replace_slashes = map (\<lambda>c. if c = CHR ''/'' then CHR ''-'' else c)"

text \<open>\<^verbatim>\<open>loadPackage(packageName)?.runtime || 'node'\<close>, the registry being a parameter.\<close>

definition getPackageRuntime :: "(string \<Rightarrow> package option) \<Rightarrow> string \<Rightarrow> runtime" where
  "getPackageRuntime loadPackage packageName =
     (case loadPackage packageName of None \<Rightarrow> Node | Some pkg \<Rightarrow> pkg_runtime pkg)"

text \<open>
  \<^verbatim>\<open>stdout.trim()\<close>: the white space and line terminators of ASCII are stripped from
  both ends.
\<close>

definition is_space :: "char \<Rightarrow> bool" where
  "is_space c = (c \<in> set [CHR '' '', CHR 0x09, CHR 0x0A, CHR 0x0B, CHR 0x0C, CHR 0x0D])"

definition trim :: "string \<Rightarrow> string" where
  "trim s = rev (dropWhile is_space (rev (dropWhile is_space s)))"

definition env_json :: "(string \<times> string) list \<Rightarrow> json" where
  "env_json envVars = JObj (map (\<lambda>kv. (fst kv, JStr (snd kv))) envVars)"

text \<open>
  The server entry as it is serialised: \<^verbatim>\<open>runtime\<close>, \<^verbatim>\<open>env\<close>, \<^verbatim>\<open>command\<close>, \<^verbatim>\<open>args\<close> in the
  order both installers create them, \<^verbatim>\<open>env\<close> left out when no mapping was passed.
\<close>

definition server_config ::
  "runtime \<Rightarrow> (string \<times> string) list option \<Rightarrow> string \<Rightarrow> string list \<Rightarrow> json" where
  "server_config rt envVars command args =
     JObj ([(''runtime'', runtime_json rt)]
           @ (case envVars of None \<Rightarrow> [] | Some e \<Rightarrow> [(''env'', env_json e)])
           @ [(''command'', JStr command), (''args'', JArr (map JStr args))])"

text \<open>
  \<^verbatim>\<open>config.mcpServers[serverName] = serverConfig\<close> and
  \<^verbatim>\<open>delete config.mcpServers[serverName]\<close>
\<close>

definition set_server :: "string \<Rightarrow> json \<Rightarrow> obj \<Rightarrow> obj" where
  "set_server serverName serverConfig config =
     AList.update ''mcpServers''
       (JObj (AList.update serverName serverConfig (servers_of config))) config"

definition delete_server :: "string \<Rightarrow> obj \<Rightarrow> obj" where
  "delete_server serverName config =
     AList.update ''mcpServers'' (JObj (AList.delete serverName (servers_of config))) config"

definition installMCPServer ::
  "(string \<Rightarrow> package option) \<Rightarrow> string \<Rightarrow> (string \<times> string) list option \<Rightarrow> runtime option
     \<Rightarrow> world \<Rightarrow> (exn + unit) \<times> world" where
  "installMCPServer loadPackage packageName envVars rt w =
     (let (config, w) = readMergedConfigs w;
          serverName = replace_slashes packageName;
          effectiveRuntime =
            (case rt of Some r \<Rightarrow> r | None \<Rightarrow> getPackageRuntime loadPackage packageName);
          config = ensure_mcpServers config;
          command =
            (if effectiveRuntime = Python
             then (case which_uvx w of Some stdout \<Rightarrow> trim stdout | None \<Rightarrow> ''uvx'')
             else ''npx'');
          serverConfig =
            server_config effectiveRuntime envVars command
              (if effectiveRuntime = Python then [packageName] else [''-y'', packageName])
      in writeConfig (set_server serverName serverConfig config) w)"

definition installPackage ::
  "package \<Rightarrow> (string \<times> string) list option \<Rightarrow> world \<Rightarrow> (exn + unit) \<times> world" where
  "installPackage pkg envVars w =
     (let (config, w) = CM_readMergedConfigs w;
          serverName = replace_slashes (pkg_name pkg);
          serverConfig =
            (case pkg_runtime pkg of
               Node \<Rightarrow> server_config Node envVars ''npx'' [''-y'', pkg_name pkg]
             | Python \<Rightarrow> server_config Python envVars ''uvx'' [pkg_name pkg])
      in CM_writeConfig (set_server serverName serverConfig config) w)"

text \<open>\<^verbatim>\<open>name in (config.mcpServers || {})\<close>\<close>

definition has_server :: "string \<Rightarrow> obj \<Rightarrow> bool" where
  "has_server name config =
     has_property name (own_entries (or_empty (map_of config ''mcpServers'')))"

definition isPackageInstalled :: "string \<Rightarrow> world \<Rightarrow> bool \<times> world" where
  "isPackageInstalled packageName w =
     (let (config, w) = CM_readMergedConfigs w;
          serverName = replace_slashes packageName
      in (has_server serverName config \<or> has_server packageName config, w))"

definition not_installed :: "string \<Rightarrow> effect" where
  "not_installed packageName = ConsoleLog (''Package '' @ packageName @ '' is not installed.'')"

definition uninstallPackage :: "string \<Rightarrow> world \<Rightarrow> (exn + unit) \<times> world" where
  "uninstallPackage packageName w =
     (let (config, w) = CM_readMergedConfigs w;
          serverName = replace_slashes packageName
      in if \<not> read_truthy config ''mcpServers''
         then (Inr (), emit (not_installed packageName) w)
         else if read_truthy (servers_of config) serverName
         then CM_writeConfig (delete_server serverName config) w
         else if read_truthy (servers_of config) packageName
         then CM_writeConfig (delete_server packageName config) w
         else (Inr (), emit (not_installed packageName) w))"

section \<open>Observations used in the statements\<close>

text \<open>
  The configuration a reader answers, as a function of the content of the file it reads.
\<close>

fun host_config :: "file_content \<Rightarrow> obj" where
  "host_config Absent = empty_config"
| "host_config Garbage = empty_config"
| "host_config (Parsed v) =
     (case with_mcpServers v of Inl e \<Rightarrow> empty_config | Inr c \<Rightarrow> c)"

text \<open>What a reader prints for a file content.\<close>

fun read_errors :: "string \<Rightarrow> file_content \<Rightarrow> effect list" where
  "read_errors msg Absent = []"
| "read_errors msg Garbage = [ConsoleError msg]"
| "read_errors msg (Parsed v) = (if v = JNull then [ConsoleError msg] else [])"

text \<open>The diagnostic of the two readers of each host.\<close>

fun reader_message :: "host \<Rightarrow> string" where
  "reader_message Claude = ''Error reading Claude config:''"
| "reader_message AmazonQ = ''Error reading Amazon Q config:''"

text \<open>The top-level properties of a host file, and those other than \<^verbatim>\<open>mcpServers\<close>.\<close>

fun file_entries :: "file_content \<Rightarrow> obj" where
  "file_entries Absent = []"
| "file_entries Garbage = []"
| "file_entries (Parsed v) = own_entries v"

definition other_keys :: "obj \<Rightarrow> obj" where
  "other_keys config = AList.delete ''mcpServers'' config"



text \<open>A host slot after its directory was ensured and its file replaced by \<open>x\<close>.\<close>

definition written :: "obj \<Rightarrow> host_slot \<Rightarrow> host_slot" where
  "written x s = s\<lparr>dir_exists := True, content := Parsed (JObj x)\<rparr>"

text \<open>A server entry is a record, that is, a JSON object.\<close>

fun is_object :: "json \<Rightarrow> bool" where
  "is_object (JObj kvs) = True"
| "is_object JNull = False"
| "is_object (JBool b) = False"
| "is_object (JNum n) = False"
| "is_object (JStr s) = False"
| "is_object (JArr xs) = False"

text \<open>
  What the writer promises about the two host files: both hold the given server map
  under \<^verbatim>\<open>mcpServers\<close>, and the other top-level properties of each file are those it had
  before, in the same order.
\<close>

definition hosts_hold :: "obj \<Rightarrow> world \<Rightarrow> world \<Rightarrow> bool" where
  "hosts_hold servers w w' \<longleftrightarrow>
     map_of (file_entries (content (claude w'))) ''mcpServers'' = Some (JObj servers)
     \<and> map_of (file_entries (content (amazonq w'))) ''mcpServers'' = Some (JObj servers)
     \<and> other_keys (file_entries (content (claude w')))
         = other_keys (file_entries (content (claude w)))
     \<and> other_keys (file_entries (content (amazonq w')))
         = other_keys (file_entries (content (amazonq w)))"

subsection \<open>An example pair of host files\<close>

definition ex_claude_servers :: obj where
  "ex_claude_servers =
     [(''alpha'', JObj [(''command'', JStr ''npx''), (''args'', JArr [JStr ''-y'', JStr ''alpha''])]),
      (''foo-bar'', JObj [(''command'', JStr ''npx''), (''args'', JArr [JStr ''-y'', JStr ''foo/bar''])]),
      (''foo/bar'', JObj [(''command'', JStr ''node'')])]"

definition ex_amazonq_servers :: obj where
  "ex_amazonq_servers =
     [(''alpha'', JObj [(''command'', JStr ''uvx''), (''args'', JArr [JStr ''alpha''])]),
      (''beta'', JObj [(''command'', JStr ''uvx''), (''args'', JArr [JStr ''beta''])]),
      (''org/tool'', JObj [(''command'', JStr ''uvx''), (''args'', JArr [JStr ''org/tool''])])]"

definition ex_claude_file :: json where
  "ex_claude_file = JObj [(''theme'', JStr ''dark''), (''mcpServers'', JObj ex_claude_servers)]"

definition ex_amazonq_file :: json where
  "ex_amazonq_file = JObj [(''mcpServers'', JObj ex_amazonq_servers), (''region'', JStr ''eu'')]"

definition ex_world :: world where
  "ex_world =
     \<lparr>claude = \<lparr>dir_exists = True, content = Parsed ex_claude_file, writable = True\<rparr>,
      amazonq = \<lparr>dir_exists = True, content = Parsed ex_amazonq_file, writable = True\<rparr>,
      which_uvx = Some ''/usr/local/bin/uvx'',
      trace = []\<rparr>"

text \<open>A pair of host files of which the second does not parse.\<close>

definition broken_world :: world where
  "broken_world =
     \<lparr>claude = \<lparr>dir_exists = True, content = Parsed ex_claude_file, writable = True\<rparr>,
      amazonq = \<lparr>dir_exists = True, content = Garbage, writable = True\<rparr>,
      which_uvx = None,
      trace = []\<rparr>"

text \<open>
  Two host files that both set the top-level key \<^verbatim>\<open>autoUpdate\<close>, the first to
  \<^verbatim>\<open>false\<close>, the second to \<^verbatim>\<open>true\<close>.
\<close>

definition flag_world :: world where
  "flag_world =
     \<lparr>claude = \<lparr>dir_exists = True,
                content = Parsed (JObj [(''autoUpdate'', JBool False), (''mcpServers'', JObj [])]),
                writable = True\<rparr>,
      amazonq = \<lparr>dir_exists = True,
                 content = Parsed (JObj [(''autoUpdate'', JBool True), (''mcpServers'', JObj [])]),
                 writable = True\<rparr>,
      which_uvx = None,
      trace = []\<rparr>"

text \<open>
  Two host files of which only the second registers servers, under the names
  \<^verbatim>\<open>constructor\<close> and \<^verbatim>\<open>toString\<close>.
\<close>

definition ex_named_server :: "string \<Rightarrow> json" where
  "ex_named_server name =
     JObj [(''command'', JStr ''npx''), (''args'', JArr [JStr ''-y'', JStr name])]"

definition inherited_world :: world where
  "inherited_world =
     \<lparr>claude = \<lparr>dir_exists = True,
                content = Parsed (JObj [(''mcpServers'', JObj [])]),
                writable = True\<rparr>,
      amazonq = \<lparr>dir_exists = True,
                 content = Parsed (JObj [(''mcpServers'',
                   JObj [(''constructor'', ex_named_server ''constructor''),
                         (''toString'', ex_named_server ''toString'')])]),
                 writable = True\<rparr>,
      which_uvx = None,
      trace = []\<rparr>"

text \<open>A configuration to write.\<close>

definition ex_servers :: obj where
  "ex_servers = [(''gamma'', JObj [(''command'', JStr ''npx'')])]"

definition ex_config :: obj where
  "ex_config = [(''mcpServers'', JObj ex_servers), (''theme'', JStr ''light'')]"

text \<open>A first installation: no host file yet, the second host's directory missing.\<close>

definition fresh_world :: world where
  "fresh_world =
     \<lparr>claude = \<lparr>dir_exists = True, content = Absent, writable = True\<rparr>,
      amazonq = \<lparr>dir_exists = False, content = Absent, writable = True\<rparr>,
      which_uvx = None,
      trace = []\<rparr>"

section \<open>Properties of the merge loops\<close>

text \<open>
  No prototype has a member named \<^verbatim>\<open>mcpServers\<close>: a read of that name is a read of the
  own property.
\<close>

lemma read_truthy_mcpServers:
  "read_truthy config ''mcpServers'' = truthy_prop (map_of config ''mcpServers'')"
  by (cases "map_of config ''mcpServers''")
     (simp_all add: read_truthy_def inherited_def Object_prototype_names_def)

lemma ensure_mcpServers_own:
  "ensure_mcpServers config =
     (if truthy_prop (map_of config ''mcpServers'') then config
      else AList.update ''mcpServers'' (JObj []) config)"
  by (simp add: ensure_mcpServers_def read_truthy_mcpServers)

lemma map_of_assign:
  "map_of (assign k x t) n = (if n = k \<and> x \<noteq> None then x else map_of t n)"
  by (cases x) (auto simp: update_conv')

lemma keys_assign:
  "distinct (map fst t) \<Longrightarrow> distinct (map fst (assign k x t))"
  by (cases x) (auto simp: distinct_update)



lemma in_dom_iff: "k \<in> fst ` set c \<longleftrightarrow> map_of c k \<noteq> None"
  by (simp add: map_of_eq_None_iff)

lemma read_truthy_cong: "map_of x k = map_of y k \<Longrightarrow> read_truthy x k = read_truthy y k"
  by (simp add: read_truthy_def)





lemma distinct_foldl_primary:
  "distinct (map fst s) \<Longrightarrow> distinct (map fst (foldl (copy_primary_server C) s ks))"
  by (induction ks arbitrary: s) (auto simp: copy_primary_server_def keys_assign)

lemma distinct_foldl_secondary:
  "distinct (map fst s) \<Longrightarrow> distinct (map fst (foldl (copy_secondary_server Q) s ks))"
  by (induction ks arbitrary: s) (auto simp: copy_secondary_server_def keys_assign)

lemma distinct_merge_servers: "distinct (map fst (merge_servers [] C Q))"
  by (simp add: merge_servers_def distinct_foldl_primary distinct_foldl_secondary)

text \<open>The loops over the top-level keys leave \<^verbatim>\<open>mergedConfig.mcpServers\<close> alone.\<close>

lemma foldl_primary_key_servers:
  "map_of (foldl (copy_primary_key C) m ks) ''mcpServers'' = map_of m ''mcpServers''"
  by (induction ks arbitrary: m) (auto simp: copy_primary_key_def map_of_assign)

lemma foldl_secondary_key_servers:
  "map_of (foldl (copy_secondary_key Q) m ks) ''mcpServers'' = map_of m ''mcpServers''"
  by (induction ks arbitrary: m) (auto simp: copy_secondary_key_def map_of_assign)

lemma merged_keys_servers:
  "map_of (foldl (copy_secondary_key Q) (foldl (copy_primary_key C) empty_config ks) ks')
     ''mcpServers'' = Some (JObj [])"
  by (simp add: foldl_secondary_key_servers foldl_primary_key_servers empty_config_def)

lemma falsy_own_entries: "\<not> truthy v \<Longrightarrow> own_entries v = []"
  by (cases v) auto

lemma servers_of_ensure: "servers_of (ensure_mcpServers c) = servers_of c"
  by (cases "map_of c ''mcpServers''")
     (auto simp: servers_of_def ensure_mcpServers_own update_conv' falsy_own_entries)

lemma servers_of_update: "servers_of (AList.update ''mcpServers'' m c) = own_entries m"
  by (simp add: servers_of_def update_conv')

lemma mergeConfigs_eq: "mergeConfigs c q = CM_mergeConfigs c q"
  by (simp add: mergeConfigs_def CM_mergeConfigs_def Let_def ensure_mcpServers_own
      merged_keys_servers)

lemma servers_of_mergeConfigs:
  "servers_of (mergeConfigs c q) = merge_servers [] (servers_of c) (servers_of q)"
  by (simp add: mergeConfigs_eq CM_mergeConfigs_def Let_def servers_of_update
      servers_of_ensure)
     (simp add: servers_of_def merged_keys_servers)

lemma map_of_foldl_primary_key:
  "map_of (foldl (copy_primary_key C) m ks) k =
     (if k \<noteq> ''mcpServers'' \<and> k \<in> set ks \<and> map_of C k \<noteq> None then map_of C k
      else map_of m k)"
  by (induction ks arbitrary: m) (auto simp: copy_primary_key_def map_of_assign)

lemma map_of_copy_secondary_key:
  "map_of (copy_secondary_key Q m a) k =
     (if k = a \<and> a \<noteq> ''mcpServers'' \<and> \<not> read_truthy m a \<and> map_of Q a \<noteq> None
      then map_of Q a else map_of m k)"
  by (auto simp: copy_secondary_key_def map_of_assign)

lemma read_truthy_copy_secondary_key:
  "read_truthy (copy_secondary_key Q m a) k =
     (if k = a \<and> a \<noteq> ''mcpServers'' \<and> \<not> read_truthy m a \<and> map_of Q a \<noteq> None
      then truthy_prop (map_of Q a) else read_truthy m k)"
  by (auto simp: read_truthy_def map_of_copy_secondary_key)

lemma map_of_foldl_secondary_key:
  "map_of (foldl (copy_secondary_key Q) m ks) k =
     (if k \<noteq> ''mcpServers'' \<and> \<not> read_truthy m k \<and> k \<in> set ks
         \<and> map_of Q k \<noteq> None
      then map_of Q k else map_of m k)"
  by (induction ks arbitrary: m)
     (auto simp: map_of_copy_secondary_key read_truthy_copy_secondary_key)

text \<open>
  The merged value of a top-level key other than \<^verbatim>\<open>mcpServers\<close>: what the first host has
  when the read of the key after the first loop is truthy, otherwise the second host's
  value when it has one.
\<close>

lemma map_of_merged_key:
  assumes "k \<noteq> ''mcpServers''"
  shows "map_of (mergeConfigs c q) k =
     (if read_truthy c k then map_of c k
      else (case map_of q k of Some v \<Rightarrow> Some v | None \<Rightarrow> map_of c k))"
proof -
  have p: "map_of (foldl (copy_primary_key c) empty_config (map fst c)) k = map_of c k"
    using assms
    by (cases "map_of c k")
       (auto simp: map_of_foldl_primary_key in_dom_iff empty_config_def)
  have "read_truthy (foldl (copy_primary_key c) empty_config (map fst c)) k = read_truthy c k"
    by (rule read_truthy_cong) (rule p)
  then show ?thesis
    using assms
    by (auto simp: mergeConfigs_def Let_def update_conv' ensure_mcpServers_own
        map_of_foldl_secondary_key p in_dom_iff split: option.splits)
qed

section \<open>Readers and writers in terms of the host slots\<close>

lemma read_host_eq:
  "read_host h msg w =
     (host_config (content (slot h w)),
      w\<lparr>trace := trace w @ read_errors msg (content (slot h w))\<rparr>)"
  by (cases "content (slot h w)")
     (auto simp: read_host_def emit_def with_mcpServers_def)

lemma readMergedConfigs_eq:
  "readMergedConfigs w =
     (mergeConfigs (host_config (content (claude w))) (host_config (content (amazonq w))),
      w\<lparr>trace := trace w
           @ read_errors ''Error reading Claude config:'' (content (claude w))
           @ read_errors ''Error reading Amazon Q config:'' (content (amazonq w))\<rparr>)"
  by (simp add: readMergedConfigs_def readClaudeConfig_def readAmazonQConfig_def read_host_eq)

lemma CM_readMergedConfigs_eq: "CM_readMergedConfigs w = readMergedConfigs w"
  by (simp add: mergeConfigs_eq CM_readMergedConfigs_def readMergedConfigs_def
      CM_readClaudeConfig_def readClaudeConfig_def CM_readAmazonQConfig_def
      readAmazonQConfig_def)

lemma writeConfig_claude:
  "claude (snd (writeConfig cfg w)) =
     (if writable (claude w)
      then written (with_servers (map_of (ensure_mcpServers cfg) ''mcpServers'')
                      (existing_config (content (claude w)))) (claude w)
      else claude w)"
  by (auto simp: writeConfig_def and_then_def ensure_dir_def write_file_def emit_def
      Let_def written_def)

lemma writeConfig_amazonq:
  "amazonq (snd (writeConfig cfg w)) =
     (if writable (claude w) \<and> writable (amazonq w)
      then written (with_servers (map_of (ensure_mcpServers cfg) ''mcpServers'')
                      (existing_config (content (amazonq w)))) (amazonq w)
      else amazonq w)"
  by (auto simp: writeConfig_def and_then_def ensure_dir_def write_file_def emit_def
      Let_def written_def)

lemma writeConfig_ok:
  "fst (writeConfig cfg w) = Inr () \<longleftrightarrow> writable (claude w) \<and> writable (amazonq w)"
  by (auto simp: writeConfig_def and_then_def ensure_dir_def write_file_def emit_def Let_def)

lemma CM_writeConfig_claude:
  "claude (snd (CM_writeConfig cfg w)) =
     (if writable (claude w)
      then written (with_servers (map_of cfg ''mcpServers'')
                      (CM_existing_config (content (claude w)))) (claude w)
      else claude w)"
  by (auto simp: CM_writeConfig_def CM_writeConfig_body_def and_then_def ensure_dir_def
      write_file_def emit_def Let_def written_def log_line_def)

lemma CM_writeConfig_amazonq:
  "amazonq (snd (CM_writeConfig cfg w)) =
     (if writable (claude w) \<and> writable (amazonq w)
      then written (with_servers (map_of cfg ''mcpServers'')
                      (CM_existing_config (content (amazonq w)))) (amazonq w)
      else amazonq w)"
  by (auto simp: CM_writeConfig_def CM_writeConfig_body_def and_then_def ensure_dir_def
      write_file_def emit_def Let_def written_def log_line_def)

lemma CM_writeConfig_ok:
  "fst (CM_writeConfig cfg w) = Inr () \<longleftrightarrow> writable (claude w) \<and> writable (amazonq w)"
  by (auto simp: CM_writeConfig_def CM_writeConfig_body_def and_then_def ensure_dir_def
      write_file_def emit_def Let_def log_line_def)

lemma other_keys_existing: "other_keys (existing_config c) = other_keys (file_entries c)"
  by (cases c) (auto simp: other_keys_def empty_config_def delete_idem)

lemma other_keys_CM_existing: "other_keys (CM_existing_config c) = other_keys (file_entries c)"
  by (cases c) (auto simp: other_keys_def empty_config_def delete_update_same)

lemma other_keys_host_config: "other_keys (host_config c) = other_keys (file_entries c)"
  by (cases c)
     (auto simp: other_keys_def empty_config_def delete_update_same with_mcpServers_def)

lemma other_keys_with_servers: "other_keys (with_servers x e) = other_keys e"
  by (cases x) (auto simp: other_keys_def delete_update_same delete_idem)

lemma map_of_with_servers: "map_of (with_servers x e) ''mcpServers'' = x"
  by (cases x) (auto simp: update_conv' delete_conv')

lemma ensure_servers_truthy:
  "map_of c ''mcpServers'' = Some m \<Longrightarrow> truthy m \<Longrightarrow> ensure_mcpServers c = c"
  by (simp add: ensure_mcpServers_own)

lemma update_fresh: "k \<notin> fst ` set xs \<Longrightarrow> AList.update k v xs = xs @ [(k, v)]"
  by (induction xs) auto

lemma foldl_primary_rebuild:
  "distinct (map fst (xs @ ys)) \<Longrightarrow> (\<forall>k \<in> fst ` set ys. map_of C k = map_of ys k) \<Longrightarrow>
   foldl (copy_primary_server C) xs (map fst ys) = xs @ ys"
proof (induction ys arbitrary: xs)
  case Nil
  then show ?case by simp
next
  case (Cons kv ys)
  obtain k v where kv: "kv = (k, v)" by (cases kv)
  have "map_of C k = Some v" using Cons.prems(2) kv by simp
  moreover have "k \<notin> fst ` set xs" using Cons.prems(1) kv by auto
  ultimately have step: "copy_primary_server C xs k = xs @ [(k, v)]"
    by (simp add: copy_primary_server_def update_fresh)
  have d: "distinct (map fst ((xs @ [(k, v)]) @ ys))" using Cons.prems(1) kv by simp
  have "\<forall>k' \<in> fst ` set ys. map_of C k' = map_of ys k'"
  proof
    fix k' assume "k' \<in> fst ` set ys"
    moreover from this have "k' \<noteq> k" using Cons.prems(1) kv by auto
    ultimately show "map_of C k' = map_of ys k'" using Cons.prems(2) kv by auto
  qed
  from Cons.IH [OF d this] show ?case using step kv by simp
qed

lemma foldl_secondary_id:
  "(\<forall>k \<in> set ks. read_truthy s k \<or> map_of s k = map_of Q k) \<Longrightarrow>
   foldl (copy_secondary_server Q) s ks = s"
proof (induction ks)
  case Nil
  then show ?case by simp
next
  case (Cons k ks)
  have "copy_secondary_server Q s k = s"
  proof (cases "read_truthy s k")
    case True
    then show ?thesis by (simp add: copy_secondary_server_def)
  next
    case False
    then have "map_of s k = map_of Q k" using Cons.prems by simp
    then show ?thesis
      by (cases "map_of Q k") (simp_all add: copy_secondary_server_def update_triv)
  qed
  then show ?case using Cons by simp
qed

lemma merge_servers_fixed:
  "distinct (map fst C) \<Longrightarrow>
   (\<forall>k \<in> fst ` set Q. read_truthy C k \<or> map_of C k = map_of Q k) \<Longrightarrow>
   merge_servers [] C Q = C"
  unfolding merge_servers_def
  using foldl_primary_rebuild [of "[]" C C] foldl_secondary_id [of "map fst Q" C Q]
  by simp

lemma map_of_mergeConfigs_servers:
  "map_of (mergeConfigs c q) ''mcpServers''
     = Some (JObj (merge_servers [] (servers_of c) (servers_of q)))"
  using servers_of_mergeConfigs [of c q]
  by (simp add: mergeConfigs_eq CM_mergeConfigs_def Let_def update_conv' servers_of_def)

lemma host_config_written:
  "map_of A ''mcpServers'' = Some m \<Longrightarrow> truthy m \<Longrightarrow> host_config (Parsed (JObj A)) = A"
  by (simp add: with_mcpServers_def update_triv)

lemma readMergedConfigs_slots:
  "claude (snd (readMergedConfigs w)) = claude w"
  "amazonq (snd (readMergedConfigs w)) = amazonq w"
  "which_uvx (snd (readMergedConfigs w)) = which_uvx w"
  by (simp_all add: readMergedConfigs_eq)

lemma fst_readMergedConfigs:
  "fst (readMergedConfigs w)
     = mergeConfigs (host_config (content (claude w))) (host_config (content (amazonq w)))"
  by (simp add: readMergedConfigs_eq)

lemma fst_readers:
  "fst (readClaudeConfig w) = host_config (content (claude w))"
  "fst (readAmazonQConfig w) = host_config (content (amazonq w))"
  "fst (CM_readClaudeConfig w) = host_config (content (claude w))"
  "fst (CM_readAmazonQConfig w) = host_config (content (amazonq w))"
  by (simp_all add: readClaudeConfig_def readAmazonQConfig_def CM_readClaudeConfig_def
      CM_readAmazonQConfig_def read_host_eq)

text \<open>The two files after a successful write of a configuration with a server map.\<close>

lemma written_files:
  assumes "map_of cfg ''mcpServers'' = Some (JObj M)"
      and "(write, ex) \<in> {(writeConfig, existing_config), (CM_writeConfig, CM_existing_config)}"
      and "fst (write cfg w) = Inr ()"
  shows "content (claude (snd (write cfg w)))
           = Parsed (JObj (AList.update ''mcpServers'' (JObj M) (ex (content (claude w)))))"
    and "content (amazonq (snd (write cfg w)))
           = Parsed (JObj (AList.update ''mcpServers'' (JObj M) (ex (content (amazonq w)))))"
proof -
  have e: "ensure_mcpServers cfg = cfg"
    using assms(1) by (simp add: ensure_servers_truthy)
  from assms(2,3) have wr: "writable (claude w)" "writable (amazonq w)"
    by (auto simp: writeConfig_ok CM_writeConfig_ok)
  from assms(2) wr show "content (claude (snd (write cfg w)))
           = Parsed (JObj (AList.update ''mcpServers'' (JObj M) (ex (content (claude w)))))"
    by (auto simp: writeConfig_claude CM_writeConfig_claude e written_def assms(1))
  from assms(2) wr show "content (amazonq (snd (write cfg w)))
           = Parsed (JObj (AList.update ''mcpServers'' (JObj M) (ex (content (amazonq w)))))"
    by (auto simp: writeConfig_amazonq CM_writeConfig_amazonq e written_def assms(1))
qed

lemma host_config_after_write:
  "host_config (Parsed (JObj (AList.update ''mcpServers'' (JObj M) E)))
     = AList.update ''mcpServers'' (JObj M) E"
  by (rule host_config_written [where m = "JObj M"]) (simp_all add: update_conv')

lemma other_keys_update: "other_keys (AList.update ''mcpServers'' m E) = other_keys E"
  by (simp add: other_keys_def delete_update_same)

section \<open>Install, uninstall and the installed test, unfolded\<close>

lemma ensure_mergeConfigs: "ensure_mcpServers (mergeConfigs c q) = mergeConfigs c q"
  by (rule ensure_servers_truthy [OF map_of_mergeConfigs_servers]) simp

lemma map_of_set_server:
  "map_of (set_server n v c) ''mcpServers'' = Some (JObj (AList.update n v (servers_of c)))"
  by (simp add: set_server_def update_conv')

lemma map_of_delete_server:
  "map_of (delete_server n c) ''mcpServers'' = Some (JObj (AList.delete n (servers_of c)))"
  by (simp add: delete_server_def update_conv')

lemma has_server_iff:
  "map_of c ''mcpServers'' = Some (JObj M) \<Longrightarrow>
   has_server n c \<longleftrightarrow> map_of M n \<noteq> None \<or> inherited n"
  by (simp add: has_server_def has_property_def map_of_eq_None_iff)

lemma servers_of_eq: "map_of c ''mcpServers'' = Some (JObj M) \<Longrightarrow> servers_of c = M"
  by (simp add: servers_of_def)

text \<open>Merging two host files that hold the same duplicate-free server map gives that map.\<close>


lemma remerge_after_write:
  assumes "distinct (map fst M)"
  shows "map_of (mergeConfigs
            (host_config (Parsed (JObj (AList.update ''mcpServers'' (JObj M) E))))
            (host_config (Parsed (JObj (AList.update ''mcpServers'' (JObj M) E')))))
           ''mcpServers'' = Some (JObj M)"
proof -
  have "merge_servers [] M M = M"
    by (rule merge_servers_fixed [OF assms]) simp
  then show ?thesis
    by (simp add: map_of_mergeConfigs_servers host_config_after_write servers_of_update
        del: host_config.simps)
qed

lemma installMCPServer_node:
  "installMCPServer loadPackage packageName envVars (Some Node) w =
     writeConfig
       (set_server (replace_slashes packageName)
          (server_config Node envVars ''npx'' [''-y'', packageName])
          (fst (readMergedConfigs w)))
       (snd (readMergedConfigs w))"
  by (simp add: installMCPServer_def Let_def split_beta fst_readMergedConfigs
      ensure_mergeConfigs)

lemma installPackage_node:
  "installPackage \<lparr>pkg_name = packageName, pkg_runtime = Node\<rparr> envVars w =
     CM_writeConfig
       (set_server (replace_slashes packageName)
          (server_config Node envVars ''npx'' [''-y'', packageName])
          (fst (readMergedConfigs w)))
       (snd (readMergedConfigs w))"
  by (simp add: installPackage_def Let_def split_beta CM_readMergedConfigs_eq)

lemma isPackageInstalled_eq:
  "fst (isPackageInstalled packageName w) \<longleftrightarrow>
     has_server (replace_slashes packageName) (fst (readMergedConfigs w))
     \<or> has_server packageName (fst (readMergedConfigs w))"
  by (simp add: isPackageInstalled_def Let_def split_beta CM_readMergedConfigs_eq)

lemma uninstallPackage_eq:
  "uninstallPackage packageName w =
     (if read_truthy (servers_of (fst (readMergedConfigs w))) (replace_slashes packageName)
      then CM_writeConfig (delete_server (replace_slashes packageName) (fst (readMergedConfigs w)))
             (snd (readMergedConfigs w))
      else if read_truthy (servers_of (fst (readMergedConfigs w))) packageName
      then CM_writeConfig (delete_server packageName (fst (readMergedConfigs w)))
             (snd (readMergedConfigs w))
      else (Inr (), emit (not_installed packageName) (snd (readMergedConfigs w))))"
  by (simp add: uninstallPackage_def Let_def split_beta CM_readMergedConfigs_eq
      fst_readMergedConfigs map_of_mergeConfigs_servers read_truthy_mcpServers)

lemma is_object_truthy: "is_object v \<Longrightarrow> truthy v"
  by (cases v) auto

lemma hosts_hold_after_write:
  assumes "map_of cfg ''mcpServers'' = Some (JObj M)"
      and "fst (CM_writeConfig cfg (snd (readMergedConfigs w))) = Inr ()"
  shows "hosts_hold M w (snd (CM_writeConfig cfg (snd (readMergedConfigs w))))"
proof -
  from assms(2) have "writable (claude w)" "writable (amazonq w)"
    by (simp_all add: CM_writeConfig_ok readMergedConfigs_slots)
  then show ?thesis
    using assms(1)
    by (simp add: hosts_hold_def CM_writeConfig_claude CM_writeConfig_amazonq written_def
        readMergedConfigs_slots update_conv' other_keys_update other_keys_CM_existing)
qed







text \<open>The server map both installers write, from the contents of the two host files.\<close>

lemma written_twice: "written x (written y s) = written x s"
  by (simp add: written_def)


lemma CM_existing_again:
  "AList.update ''mcpServers'' X
     (CM_existing_config (Parsed (JObj (AList.update ''mcpServers'' X (CM_existing_config c)))))
   = AList.update ''mcpServers'' X (CM_existing_config c)"
  by simp







section \<open>The claims\<close>

text \<open>
  C9. The merge of \<^verbatim>\<open>ConfigManager.readMergedConfigs\<close> and the merge of the free function
  \<^verbatim>\<open>readMergedConfigs\<close> compute the same merged configuration from every pair of host
  configurations, and the two functions, run on the same pair of host files, answer the
  same configuration and print the same diagnostics.
\<close>

theorem readMergedConfigs_variants_agree:
  "CM_mergeConfigs claudeConfig amazonQConfig = mergeConfigs claudeConfig amazonQConfig
   \<and> CM_readMergedConfigs w = readMergedConfigs w"
  by (simp add: mergeConfigs_eq CM_readMergedConfigs_def readMergedConfigs_def
      CM_readClaudeConfig_def readClaudeConfig_def CM_readAmazonQConfig_def
      readAmazonQConfig_def)

text \<open>
  C1. For every configuration whose \<^verbatim>\<open>mcpServers\<close> is a server map, after a successful
  \<^verbatim>\<open>writeConfig\<close> (either implementation) the Claude file and the Amazon Q file both hold
  that server map under \<^verbatim>\<open>mcpServers\<close>, and each file keeps the top-level properties
  other than \<^verbatim>\<open>mcpServers\<close> that it had before the call, unchanged.
\<close>

theorem writeConfig_both_hosts:
  assumes "map_of config ''mcpServers'' = Some (JObj servers)"
  shows "(fst (writeConfig config w) = Inr () \<longrightarrow>
            hosts_hold servers w (snd (writeConfig config w)))
       \<and> (fst (CM_writeConfig config w) = Inr () \<longrightarrow>
            hosts_hold servers w (snd (CM_writeConfig config w)))"
proof -
  have e: "ensure_mcpServers config = config"
    using assms by (simp add: ensure_servers_truthy)
  have "hosts_hold servers w (snd (writeConfig config w))"
    if "fst (writeConfig config w) = Inr ()"
  proof -
    from that have "writable (claude w)" "writable (amazonq w)"
      by (simp_all add: writeConfig_ok)
    then show ?thesis
      using assms
      by (simp add: hosts_hold_def writeConfig_claude writeConfig_amazonq e written_def
          map_of_with_servers other_keys_with_servers other_keys_existing
          del: with_servers.simps)
  qed
  moreover have "hosts_hold servers w (snd (CM_writeConfig config w))"
    if "fst (CM_writeConfig config w) = Inr ()"
  proof -
    from that have "writable (claude w)" "writable (amazonq w)"
      by (simp_all add: CM_writeConfig_ok)
    then show ?thesis
      using assms
      by (simp add: hosts_hold_def CM_writeConfig_claude CM_writeConfig_amazonq written_def
          map_of_with_servers other_keys_with_servers other_keys_CM_existing
          del: with_servers.simps)
  qed
  ultimately show ?thesis by blast
qed

theorem writeConfig_both_hosts_witness:
  "map_of ex_config ''mcpServers'' = Some (JObj ex_servers)
   \<and> fst (writeConfig ex_config ex_world) = Inr ()
   \<and> hosts_hold ex_servers ex_world (snd (writeConfig ex_config ex_world))
   \<and> fst (CM_writeConfig ex_config ex_world) = Inr ()
   \<and> hosts_hold ex_servers ex_world (snd (CM_writeConfig ex_config ex_world))"
proof -
  have m: "map_of ex_config ''mcpServers'' = Some (JObj ex_servers)"
    by (simp add: ex_config_def)
  have w1: "fst (writeConfig ex_config ex_world) = Inr ()"
    by (simp add: writeConfig_ok ex_world_def)
  have w2: "fst (CM_writeConfig ex_config ex_world) = Inr ()"
    by (simp add: CM_writeConfig_ok ex_world_def)
  from writeConfig_both_hosts [OF m, of ex_world] m w1 w2 show ?thesis by simp
qed


text \<open>
  C4. Reading one host's configuration always answers a configuration; none of the four
  readers has a throwing outcome, since whatever the guarded body throws is caught. When
  the file does not exist the answer is \<^verbatim>\<open>{mcpServers: {}}\<close> and nothing is printed; when
  the content does not parse (or parses to \<^verbatim>\<open>null\<close>, whose property read throws) the
  reader prints its diagnostic and answers \<^verbatim>\<open>{mcpServers: {}}\<close>; when it parses to
  anything else, nothing is printed and the answer has the properties of the parsed value
  (the members of a parsed object) with \<^verbatim>\<open>mcpServers\<close> set to \<^verbatim>\<open>{}\<close> when absent (or
  falsy), kept otherwise, and every other top-level property kept with its value and
  position. The four cases are all the states a file can be in.
\<close>

theorem readers_fail_open:
  assumes "(reader, h) \<in> {(readClaudeConfig, Claude), (CM_readClaudeConfig, Claude),
                          (readAmazonQConfig, AmazonQ), (CM_readAmazonQConfig, AmazonQ)}"
  shows "(content (slot h w) = Absent \<longrightarrow> reader w = (empty_config, w))
       \<and> (content (slot h w) = Garbage \<longrightarrow>
            reader w = (empty_config, emit (ConsoleError (reader_message h)) w))
       \<and> (content (slot h w) = Parsed JNull \<longrightarrow>
            reader w = (empty_config, emit (ConsoleError (reader_message h)) w))
       \<and> (content (slot h w) = Parsed v \<and> v \<noteq> JNull \<longrightarrow>
            (\<exists>config. reader w = (config, w)
               \<and> map_of config ''mcpServers''
                   = Some (or_empty (map_of (own_entries v) ''mcpServers''))
               \<and> (map_of (own_entries v) ''mcpServers'' = None \<longrightarrow>
                    map_of config ''mcpServers'' = Some (JObj []))
               \<and> other_keys config = other_keys (own_entries v)
               \<and> (\<forall>k. k \<noteq> ''mcpServers'' \<longrightarrow>
                    map_of config k = map_of (own_entries v) k)))"
proof -
  have r: "reader = read_host h (reader_message h)"
    using assms
    by (auto simp: readClaudeConfig_def CM_readClaudeConfig_def readAmazonQConfig_def
        CM_readAmazonQConfig_def)
  show ?thesis
    unfolding r
    by (auto simp: read_host_def with_mcpServers_def update_conv' other_keys_def
        delete_update_same)
qed

theorem readers_fail_open_witness:
  "readClaudeConfig fresh_world = (empty_config, fresh_world)
   \<and> CM_readAmazonQConfig broken_world
       = (empty_config, emit (ConsoleError ''Error reading Amazon Q config:'') broken_world)
   \<and> (\<exists>config. CM_readClaudeConfig ex_world = (config, ex_world)
         \<and> map_of config ''mcpServers'' = Some (JObj ex_claude_servers)
         \<and> other_keys config = [(''theme'', JStr ''dark'')])"
proof -
  have 1: "content (slot Claude fresh_world) = Absent"
    by (simp add: fresh_world_def)
  have 2: "content (slot AmazonQ broken_world) = Garbage"
    by (simp add: broken_world_def)
  have 3: "content (slot Claude ex_world)
             = Parsed (JObj [(''theme'', JStr ''dark''), (''mcpServers'', JObj ex_claude_servers)])"
    by (simp add: ex_world_def ex_claude_file_def)
  from readers_fail_open [of readClaudeConfig Claude fresh_world] 1
  have a: "readClaudeConfig fresh_world = (empty_config, fresh_world)" by simp
  from readers_fail_open [of CM_readAmazonQConfig AmazonQ broken_world] 2
  have b: "CM_readAmazonQConfig broken_world
       = (empty_config, emit (ConsoleError ''Error reading Amazon Q config:'') broken_world)"
    by simp
  from readers_fail_open [of CM_readClaudeConfig Claude ex_world
         "JObj [(''theme'', JStr ''dark''), (''mcpServers'', JObj ex_claude_servers)]"] 3
  have c: "\<exists>config. CM_readClaudeConfig ex_world = (config, ex_world)
         \<and> map_of config ''mcpServers'' = Some (JObj ex_claude_servers)
         \<and> other_keys config = [(''theme'', JStr ''dark'')]"
    by (auto simp: other_keys_def)
  from a b c show ?thesis by blast
qed


text \<open>
  C7. For every pair of host files: when the merge of the two freshly read host
  configurations is written successfully, re-reading each host answers a configuration
  whose \<^verbatim>\<open>mcpServers\<close> is the merged map, so that the two are equal to each other and to
  the merged map (and merging them again gives the same map); the properties other than
  \<^verbatim>\<open>mcpServers\<close> that each host's reader answers are the same before and after. Both
  implementations are covered.
\<close>

theorem merge_write_read_round_trip:
  assumes "(readMerged, write, readClaude, readAmazonQ) \<in>
             {(readMergedConfigs, writeConfig, readClaudeConfig, readAmazonQConfig),
              (CM_readMergedConfigs, CM_writeConfig, CM_readClaudeConfig, CM_readAmazonQConfig)}"
      and "readMerged w = (merged, w1)"
      and "write merged w1 = (Inr (), w2)"
  shows "map_of (fst (readClaude w2)) ''mcpServers'' = map_of merged ''mcpServers''
       \<and> map_of (fst (readAmazonQ w2)) ''mcpServers'' = map_of merged ''mcpServers''
       \<and> map_of (fst (readMerged w2)) ''mcpServers'' = map_of merged ''mcpServers''
       \<and> other_keys (fst (readClaude w2)) = other_keys (fst (readClaude w))
       \<and> other_keys (fst (readAmazonQ w2)) = other_keys (fst (readAmazonQ w))"
proof -
  define M where "M = merge_servers [] (servers_of (host_config (content (claude w))))
                        (servers_of (host_config (content (amazonq w))))"
  from assms(1) have rm: "readMerged = readMergedConfigs"
    by (auto simp: CM_readMergedConfigs_eq fun_eq_iff)
  from assms(2) have merged: "merged = fst (readMergedConfigs w)"
    and w1: "w1 = snd (readMergedConfigs w)"
    by (simp_all add: rm)
  have mm: "map_of merged ''mcpServers'' = Some (JObj M)"
    by (simp add: merged fst_readMergedConfigs map_of_mergeConfigs_servers M_def)
  from assms(1) obtain ex where
    ex: "(write, ex) \<in> {(writeConfig, existing_config), (CM_writeConfig, CM_existing_config)}"
    by auto
  have ok: "fst (write merged w1) = Inr ()" and w2: "w2 = snd (write merged w1)"
    using assms(3) by simp_all
  note files = written_files [OF mm ex ok, folded w2]
  have rc: "fst (readClaude w2) = host_config (content (claude w2))"
    and rq: "fst (readAmazonQ w2) = host_config (content (amazonq w2))"
    and rc0: "fst (readClaude w) = host_config (content (claude w))"
    and rq0: "fst (readAmazonQ w) = host_config (content (amazonq w))"
    using assms(1) by (auto simp: fst_readers)
  have ok_ex: "other_keys (ex c) = other_keys (host_config c)" for c
    using ex by (auto simp: other_keys_existing other_keys_CM_existing other_keys_host_config)
  have d: "distinct (map fst M)"
    by (simp add: M_def distinct_merge_servers)
  have again: "merge_servers [] M M = M"
    by (rule merge_servers_fixed [OF d]) simp
  have "map_of (fst (readMerged w2)) ''mcpServers'' = Some (JObj M)"
    by (simp add: rm fst_readMergedConfigs map_of_mergeConfigs_servers files
        host_config_after_write servers_of_update again del: host_config.simps)
  then show ?thesis
    by (simp add: rc rq rc0 rq0 files host_config_after_write update_conv' mm
        other_keys_update ok_ex w1 readMergedConfigs_slots del: host_config.simps)
qed


theorem merge_write_read_round_trip_witness:
  "readMergedConfigs ex_world
     = (fst (readMergedConfigs ex_world), snd (readMergedConfigs ex_world))
   \<and> fst (writeConfig (fst (readMergedConfigs ex_world)) (snd (readMergedConfigs ex_world)))
       = Inr ()
   \<and> map_of (fst (readClaudeConfig (snd (writeConfig (fst (readMergedConfigs ex_world))
         (snd (readMergedConfigs ex_world)))))) ''mcpServers''
       = map_of (fst (readMergedConfigs ex_world)) ''mcpServers''
   \<and> map_of (fst (readAmazonQConfig (snd (writeConfig (fst (readMergedConfigs ex_world))
         (snd (readMergedConfigs ex_world)))))) ''mcpServers''
       = map_of (fst (readMergedConfigs ex_world)) ''mcpServers''
   \<and> other_keys (fst (readClaudeConfig (snd (writeConfig (fst (readMergedConfigs ex_world))
         (snd (readMergedConfigs ex_world))))))
       = [(''theme'', JStr ''dark'')]
   \<and> other_keys (fst (readAmazonQConfig (snd (writeConfig (fst (readMergedConfigs ex_world))
         (snd (readMergedConfigs ex_world))))))
       = [(''region'', JStr ''eu'')]"
proof -
  let ?merged = "fst (readMergedConfigs ex_world)"
  let ?w1 = "snd (readMergedConfigs ex_world)"
  let ?w2 = "snd (writeConfig ?merged ?w1)"
  have ok: "fst (writeConfig ?merged ?w1) = Inr ()"
    by (simp add: writeConfig_ok readMergedConfigs_slots ex_world_def)
  then have wr: "writeConfig ?merged ?w1 = (Inr (), ?w2)"
    by (simp add: prod_eq_iff)
  have before: "other_keys (fst (readClaudeConfig ex_world)) = [(''theme'', JStr ''dark'')]"
    "other_keys (fst (readAmazonQConfig ex_world)) = [(''region'', JStr ''eu'')]"
    unfolding fst_readers other_keys_host_config
    by (simp_all add: other_keys_def ex_world_def ex_claude_file_def ex_amazonq_file_def)
  from merge_write_read_round_trip
         [of readMergedConfigs writeConfig readClaudeConfig readAmazonQConfig
             ex_world ?merged ?w1 ?w2] wr ok before
  show ?thesis by simp
qed

text \<open>
  C5. For every package name (in particular every name containing slashes): after a
  successful install with runtime \<^verbatim>\<open>node\<close> and an empty \<^verbatim>\<open>env\<close>, by either installer,
  \<^verbatim>\<open>isPackageInstalled\<close> of the original name answers true, and the merged \<^verbatim>\<open>mcpServers\<close>
  map holds, under the name with every \<^verbatim>\<open>/\<close> replaced by \<^verbatim>\<open>-\<close>, exactly the record with
  \<^verbatim>\<open>runtime: "node"\<close>, \<^verbatim>\<open>env: {}\<close>, \<^verbatim>\<open>command: "npx"\<close> and
  \<^verbatim>\<open>args: ["-y", <original name>]\<close>.
\<close>

theorem install_then_installed:
  assumes "(install, readMerged) \<in>
             {(installMCPServer loadPackage packageName (Some []) (Some Node),
               readMergedConfigs),
              (installPackage \<lparr>pkg_name = packageName, pkg_runtime = Node\<rparr> (Some []),
               CM_readMergedConfigs)}"
      and "install w = (Inr (), w')"
  shows "fst (isPackageInstalled packageName w')
       \<and> map_of (servers_of (fst (readMerged w'))) (replace_slashes packageName)
           = Some (JObj [(''runtime'', JStr ''node''), (''env'', JObj []),
                         (''command'', JStr ''npx''),
                         (''args'', JArr [JStr ''-y'', JStr packageName])])"
proof -
  let ?entry = "server_config Node (Some []) ''npx'' [''-y'', packageName]"
  let ?merged = "fst (readMergedConfigs w)"
  let ?cfg = "set_server (replace_slashes packageName) ?entry ?merged"
  define M where "M = AList.update (replace_slashes packageName) ?entry (servers_of ?merged)"
  have cfg: "map_of ?cfg ''mcpServers'' = Some (JObj M)"
    by (simp add: map_of_set_server M_def)
  have d: "distinct (map fst M)"
    unfolding M_def
    by (simp add: fst_readMergedConfigs servers_of_mergeConfigs distinct_update
        distinct_merge_servers)
  from assms(1) have "install w = writeConfig ?cfg (snd (readMergedConfigs w))
      \<or> install w = CM_writeConfig ?cfg (snd (readMergedConfigs w))"
    by (auto simp: installMCPServer_node installPackage_node)
  then obtain wr ex where
    ex: "(wr, ex) \<in> {(writeConfig, existing_config), (CM_writeConfig, CM_existing_config)}"
    and inst: "install w = wr ?cfg (snd (readMergedConfigs w))"
    by fastforce
  from inst assms(2) have ok: "fst (wr ?cfg (snd (readMergedConfigs w))) = Inr ()"
    and w': "w' = snd (wr ?cfg (snd (readMergedConfigs w)))"
    by (metis fst_conv, metis snd_conv)
  note files = written_files [OF cfg ex ok, folded w']
  have rm: "readMerged = readMergedConfigs"
    using assms(1) by (auto simp: CM_readMergedConfigs_eq fun_eq_iff)
  have again: "map_of (fst (readMergedConfigs w')) ''mcpServers'' = Some (JObj M)"
    by (simp add: fst_readMergedConfigs files remerge_after_write [OF d]
        del: host_config.simps)
  have entry: "map_of M (replace_slashes packageName) = Some ?entry"
    by (simp add: M_def update_conv')
  have "fst (isPackageInstalled packageName w')"
    by (simp add: isPackageInstalled_eq has_server_iff [OF again] entry)
  moreover have "map_of (servers_of (fst (readMerged w'))) (replace_slashes packageName)
                   = Some ?entry"
    by (simp add: rm servers_of_eq [OF again] entry)
  ultimately show ?thesis
    by (simp add: server_config_def env_json_def)
qed


theorem install_then_installed_witness:
  "fst (installMCPServer (\<lambda>name. None) ''foo/bar'' (Some []) (Some Node) fresh_world) = Inr ()
   \<and> fst (isPackageInstalled ''foo/bar''
         (snd (installMCPServer (\<lambda>name. None) ''foo/bar'' (Some []) (Some Node) fresh_world)))
   \<and> map_of (servers_of (fst (readMergedConfigs
         (snd (installMCPServer (\<lambda>name. None) ''foo/bar'' (Some []) (Some Node) fresh_world)))))
         ''foo-bar''
       = Some (JObj [(''runtime'', JStr ''node''), (''env'', JObj []),
                     (''command'', JStr ''npx''),
                     (''args'', JArr [JStr ''-y'', JStr ''foo/bar''])])"
proof -
  let ?install = "installMCPServer (\<lambda>name. None) ''foo/bar'' (Some []) (Some Node)"
  have ok: "fst (?install fresh_world) = Inr ()"
    by (simp add: installMCPServer_node writeConfig_ok readMergedConfigs_slots
        fresh_world_def)
  then have run: "?install fresh_world = (Inr (), snd (?install fresh_world))"
    by (simp add: prod_eq_iff)
  have name: "replace_slashes ''foo/bar'' = ''foo-bar''"
    by (simp add: replace_slashes_def)
  from install_then_installed
         [of ?install readMergedConfigs "\<lambda>name. None" "''foo/bar''" fresh_world
             "snd (?install fresh_world)"] run ok name
  show ?thesis by simp
qed

text \<open>
  C10. For every package name whose dash form differs from the raw name: when the merged
  server map has a server record under the dash form and an entry under the raw name, a
  successful uninstall leaves both host files holding the merged map with only the
  dash-form entry deleted; the entry under the raw name is still there, and
  \<^verbatim>\<open>isPackageInstalled\<close> of the package name answers true afterwards.
\<close>

theorem uninstall_prefers_dash_form:
  assumes "CM_readMergedConfigs w = (merged, w1)"
      and "serverName = replace_slashes packageName"
      and "serverName \<noteq> packageName"
      and "map_of (servers_of merged) serverName = Some d"
      and "is_object d"
      and "map_of (servers_of merged) packageName = Some s"
      and "uninstallPackage packageName w = (Inr (), w')"
  shows "hosts_hold (AList.delete serverName (servers_of merged)) w w'
       \<and> map_of (AList.delete serverName (servers_of merged)) serverName = None
       \<and> map_of (AList.delete serverName (servers_of merged)) packageName = Some s
       \<and> fst (isPackageInstalled packageName w')"
proof -
  let ?M = "AList.delete serverName (servers_of merged)"
  from assms(1) have merged: "merged = fst (readMergedConfigs w)"
    and w1: "w1 = snd (readMergedConfigs w)"
    by (simp_all add: CM_readMergedConfigs_eq)
  have "truthy d" using assms(5) by (rule is_object_truthy)
  then have "read_truthy (servers_of merged) serverName"
    using assms(4) by (simp add: read_truthy_def)
  then have run: "uninstallPackage packageName w
                    = CM_writeConfig (delete_server serverName merged) w1"
    by (simp add: uninstallPackage_eq merged [symmetric] w1 [symmetric] assms(2) [symmetric])
  with assms(7) have ok: "fst (CM_writeConfig (delete_server serverName merged) w1) = Inr ()"
    and w': "w' = snd (CM_writeConfig (delete_server serverName merged) w1)"
    by simp_all
  have cfg: "map_of (delete_server serverName merged) ''mcpServers'' = Some (JObj ?M)"
    by (rule map_of_delete_server)
  have hold: "hosts_hold ?M w w'"
    using hosts_hold_after_write [OF cfg, of w] ok w' w1 by simp
  have ex: "(CM_writeConfig, CM_existing_config)
              \<in> {(writeConfig, existing_config), (CM_writeConfig, CM_existing_config)}"
    by simp
  note files = written_files [OF cfg ex ok, folded w']
  have d: "distinct (map fst ?M)"
    by (simp add: merged fst_readMergedConfigs servers_of_mergeConfigs distinct_delete
        distinct_merge_servers)
  have again: "map_of (fst (readMergedConfigs w')) ''mcpServers'' = Some (JObj ?M)"
    by (simp add: fst_readMergedConfigs files remerge_after_write [OF d]
        del: host_config.simps)
  have gone: "map_of ?M serverName = None"
    by (simp add: delete_conv')
  have kept: "map_of ?M packageName = Some s"
    using assms(3,6) by (simp add: delete_conv')
  have "fst (isPackageInstalled packageName w')"
    by (simp add: isPackageInstalled_eq has_server_iff [OF again] kept)
  with hold gone kept show ?thesis by simp
qed

theorem uninstall_prefers_dash_form_witness:
  "replace_slashes ''foo/bar'' = ''foo-bar''
   \<and> map_of (servers_of (fst (CM_readMergedConfigs ex_world))) ''foo-bar''
       = Some (snd (ex_claude_servers ! 1))
   \<and> is_object (snd (ex_claude_servers ! 1))
   \<and> map_of (servers_of (fst (CM_readMergedConfigs ex_world))) ''foo/bar''
       = Some (snd (ex_claude_servers ! 2))
   \<and> fst (uninstallPackage ''foo/bar'' ex_world) = Inr ()
   \<and> hosts_hold (AList.delete ''foo-bar'' (servers_of (fst (CM_readMergedConfigs ex_world))))
        ex_world (snd (uninstallPackage ''foo/bar'' ex_world))
   \<and> map_of (AList.delete ''foo-bar'' (servers_of (fst (CM_readMergedConfigs ex_world))))
        ''foo/bar'' = Some (snd (ex_claude_servers ! 2))
   \<and> fst (isPackageInstalled ''foo/bar'' (snd (uninstallPackage ''foo/bar'' ex_world)))"
proof -
  let ?merged = "fst (CM_readMergedConfigs ex_world)"
  let ?w1 = "snd (CM_readMergedConfigs ex_world)"
  have M: "servers_of ?merged = ex_claude_servers @ [ex_amazonq_servers ! 1, ex_amazonq_servers ! 2]"
    by code_simp
  have rd: "CM_readMergedConfigs ex_world = (?merged, ?w1)"
    by simp
  have n: "replace_slashes ''foo/bar'' = ''foo-bar''"
    by (simp add: replace_slashes_def)
  have ne: "''foo-bar'' \<noteq> ''foo/bar''"
    by simp
  have k: "map_of (servers_of ?merged) ''foo-bar'' = Some (snd (ex_claude_servers ! 1))"
    "map_of (servers_of ?merged) ''foo/bar'' = Some (snd (ex_claude_servers ! 2))"
    unfolding M by (simp_all add: ex_claude_servers_def ex_amazonq_servers_def)
  have obj: "is_object (snd (ex_claude_servers ! 1))"
    by (simp add: ex_claude_servers_def)
  have ok: "fst (uninstallPackage ''foo/bar'' ex_world) = Inr ()"
    using k(1) obj
    by (simp add: uninstallPackage_eq n CM_readMergedConfigs_eq [symmetric] is_object_truthy)
       (simp add: CM_readMergedConfigs_eq CM_writeConfig_ok readMergedConfigs_slots ex_world_def)
  then have run: "uninstallPackage ''foo/bar'' ex_world
                    = (Inr (), snd (uninstallPackage ''foo/bar'' ex_world))"
    by (simp add: prod_eq_iff)
  from uninstall_prefers_dash_form [OF rd n [symmetric] ne k(1) obj k(2) run] n k obj ok
  show ?thesis by simp
qed





text \<open>
  C3. On a collision of a top-level key other than \<^verbatim>\<open>mcpServers\<close> the primary host's
  value is to be the merged one, whatever that value is. The loop over the second host's
  keys copies a key whenever \<^verbatim>\<open>!mergedConfig[key]\<close> holds, which is also the case when the
  first host set the key to a falsy value (\<open>map_of_merged_key\<close> gives the merged value in
  general). With \<^verbatim>\<open>autoUpdate: false\<close> in the Claude file and \<^verbatim>\<open>autoUpdate: true\<close> in the
  Amazon Q file, both implementations answer \<^verbatim>\<open>autoUpdate: true\<close>, the secondary host's
  value.
\<close>

theorem falsy_primary_key_overridden:
  "map_of (fst (readClaudeConfig flag_world)) ''autoUpdate'' = Some (JBool False)
   \<and> map_of (fst (readAmazonQConfig flag_world)) ''autoUpdate'' = Some (JBool True)
   \<and> map_of (fst (readMergedConfigs flag_world)) ''autoUpdate'' = Some (JBool True)
   \<and> map_of (fst (CM_readMergedConfigs flag_world)) ''autoUpdate'' = Some (JBool True)"
  by code_simp

text \<open>
  C2. A server that only one host registers is to be found unchanged in the merged map.
  The loop over the second host's servers copies an entry when
  \<^verbatim>\<open>!mergedConfig.mcpServers[serverName]\<close> holds; for a name that \<^verbatim>\<open>Object.prototype\<close>
  has a member of, the read finds that member, which is truthy, and the entry is not
  copied. With the servers \<^verbatim>\<open>constructor\<close> and \<^verbatim>\<open>toString\<close> registered in the Amazon Q
  file only, both implementations answer a merged map without them.
\<close>

theorem inherited_name_server_dropped:
  "map_of (servers_of (fst (readClaudeConfig inherited_world))) ''constructor'' = None
   \<and> map_of (servers_of (fst (readAmazonQConfig inherited_world))) ''constructor''
       = Some (JObj [(''command'', JStr ''npx''),
                     (''args'', JArr [JStr ''-y'', JStr ''constructor''])])
   \<and> map_of (servers_of (fst (readMergedConfigs inherited_world))) ''constructor'' = None
   \<and> map_of (servers_of (fst (CM_readMergedConfigs inherited_world))) ''constructor'' = None
   \<and> map_of (servers_of (fst (readClaudeConfig inherited_world))) ''toString'' = None
   \<and> map_of (servers_of (fst (readAmazonQConfig inherited_world))) ''toString''
       = Some (JObj [(''command'', JStr ''npx''),
                     (''args'', JArr [JStr ''-y'', JStr ''toString''])])
   \<and> map_of (servers_of (fst (readMergedConfigs inherited_world))) ''toString'' = None
   \<and> map_of (servers_of (fst (CM_readMergedConfigs inherited_world))) ''toString'' = None
   \<and> servers_of (fst (readMergedConfigs inherited_world)) = []"
  by code_simp

text \<open>
  C6. Uninstalling a package that is under neither key of the merged map is to print
  \<^verbatim>\<open>Package <name> is not installed.\<close> and to write nothing. The two tests
  \<^verbatim>\<open>config.mcpServers[serverName]\<close> and \<^verbatim>\<open>config.mcpServers[packageName]\<close> are reads, and
  for a name that \<^verbatim>\<open>Object.prototype\<close> has a member of, the read is truthy although the
  map has no such key. With no host file at all, uninstalling \<^verbatim>\<open>constructor\<close> (or
  \<^verbatim>\<open>toString\<close>) takes the first branch: the \<^verbatim>\<open>delete\<close> removes nothing, the writer
  creates the Amazon Q directory and both files, and the message is not printed.
\<close>

theorem uninstall_inherited_name_writes:
  "replace_slashes ''constructor'' = ''constructor''
   \<and> servers_of (fst (CM_readMergedConfigs fresh_world)) = []
   \<and> content (claude fresh_world) = Absent
   \<and> content (amazonq fresh_world) = Absent
   \<and> fst (uninstallPackage ''constructor'' fresh_world) = Inr ()
   \<and> trace (snd (uninstallPackage ''constructor'' fresh_world))
       = [WriteFile Claude, ConsoleLog ''Updated Claude MCP configuration'',
          MkDir AmazonQ, WriteFile AmazonQ,
          ConsoleLog ''Updated Amazon Q MCP configuration'']
   \<and> content (claude (snd (uninstallPackage ''constructor'' fresh_world)))
       = Parsed (JObj [(''mcpServers'', JObj [])])
   \<and> content (amazonq (snd (uninstallPackage ''constructor'' fresh_world)))
       = Parsed (JObj [(''mcpServers'', JObj [])])
   \<and> trace (snd (uninstallPackage ''toString'' fresh_world))
       = [WriteFile Claude, ConsoleLog ''Updated Claude MCP configuration'',
          MkDir AmazonQ, WriteFile AmazonQ,
          ConsoleLog ''Updated Amazon Q MCP configuration'']
   \<and> trace (snd (uninstallPackage ''zeta'' fresh_world)) = [not_installed ''zeta'']
   \<and> content (claude (snd (uninstallPackage ''zeta'' fresh_world))) = Absent"
  by code_simp

end
